theory Spec2Isabelle
  imports Main "HOL-Library.Sublist"
begin

section \<open>JavaScript values\<close>

text \<open>
  The hooks probe server replies through \<open>as any\<close>, so a reply is an untyped value.
  Numbers in these payloads are page numbers and counts and are kept as integers.
  An object is the list of its own enumerable properties in the order in which
  \<open>Object.keys\<close> enumerates them, with pairwise distinct keys.
\<close>

datatype jsval =
    JUndefined
  | JNull
  | JBool bool
  | JNum int
  | JStr string
  | JArr "jsval list"
  | JObj "(string \<times> jsval) list"

text \<open>Truthiness as \<open>if (v)\<close>, \<open>v && w\<close> and \<open>v || w\<close> test it.\<close>

fun truthy :: "jsval \<Rightarrow> bool" where
  "truthy JUndefined = False"
| "truthy JNull = False"
| "truthy (JBool b) = b"
| "truthy (JNum n) = (n \<noteq> 0)"
| "truthy (JStr s) = (s \<noteq> [])"
| "truthy (JArr xs) = True"
| "truthy (JObj kvs) = True"

text \<open>\<open>a || b\<close>: the left operand when it is truthy, the right one otherwise.\<close>

definition js_or :: "jsval \<Rightarrow> jsval \<Rightarrow> jsval" where
  "js_or a b = (if truthy a then a else b)"

text \<open>
  \<open>v.k\<close> for the property names read by the hooks, on a value that is neither
  \<open>null\<close> nor \<open>undefined\<close>: a missing property reads as \<open>undefined\<close>, and arrays and
  primitives have none of these names.
\<close>

fun js_get :: "jsval \<Rightarrow> string \<Rightarrow> jsval" where
  "js_get (JObj kvs) k = (case map_of kvs k of Some v \<Rightarrow> v | None \<Rightarrow> JUndefined)"
| "js_get v k = JUndefined"

fun isArray :: "jsval \<Rightarrow> bool" where
  "isArray (JArr xs) = True"
| "isArray v = False"

fun elems :: "jsval \<Rightarrow> jsval list" where
  "elems (JArr xs) = xs"
| "elems v = []"

text \<open>\<open>Object.values(v)\<close> on a value that is neither \<open>null\<close> nor \<open>undefined\<close>.\<close>

fun object_values :: "jsval \<Rightarrow> jsval list" where
  "object_values (JObj kvs) = map snd kvs"
| "object_values (JArr xs) = xs"
| "object_values (JStr s) = map (\<lambda>c. JStr [c]) s"
| "object_values v = []"

text \<open>Property access on \<open>null\<close> or \<open>undefined\<close> throws a TypeError.\<close>

fun nullish :: "jsval \<Rightarrow> bool" where
  "nullish JUndefined = True"
| "nullish JNull = True"
| "nullish v = False"

text \<open>
  What a \<open>catch\<close> clause receives: an instance of \<open>Error\<close> with its message, or any
  other thrown value.
\<close>

datatype thrown = ErrorInstance string | NonError jsval

text \<open>
  The message of the TypeError raised by the engine itself; its wording is the
  engine's, and no statement below depends on it.
\<close>

definition typeErrorMessage :: string where
  "typeErrorMessage = ''TypeError''"

text \<open>An awaited service call either throws or returns a value.\<close>

datatype outcome = Throws thrown | Returns jsval

section \<open>The categorized transactions hook\<close>

datatype TransactionCategory = Collection | Reversal | Payout

datatype CategorizedTransactionType = MONEY_IN | REVERSAL | MONEY_OUT

fun TRANSACTION_CATEGORIES :: "TransactionCategory \<Rightarrow> CategorizedTransactionType" where
  "TRANSACTION_CATEGORIES Collection = MONEY_IN"
| "TRANSACTION_CATEGORIES Reversal = REVERSAL"
| "TRANSACTION_CATEGORIES Payout = MONEY_OUT"

text \<open>\<open>UseCategorizedTransactionsState\<close>; \<open>meta\<close> is \<open>JNull\<close> or whatever the reply gave.\<close>

record UseCategorizedTransactionsState =
  data :: "jsval list"
  meta :: jsval
  loading :: bool
  error :: "string option"

definition initialState :: UseCategorizedTransactionsState where
  "initialState = \<lparr>data = [], meta = JNull, loading = False, error = None\<rparr>"

text \<open>A call of \<open>transactionService.getCategorizedTransactions(type, params)\<close>.\<close>

record service_call =
  call_type :: CategorizedTransactionType
  call_params :: "(string \<times> jsval) list"

text \<open>
  The state of one hook instance: the three \<open>useState\<close> cells of the categories, the
  current category, the dependency value with which the effect on
  \<open>[currentCategory, fetchTransactions]\<close> last ran (\<open>None\<close> before the first commit;
  \<open>fetchTransactions\<close> and \<open>getCategorySetter\<close> are memoised on constant dependencies
  and never change), and the calls made to the transaction service so far.
\<close>

record hook =
  collection :: UseCategorizedTransactionsState
  reversal :: UseCategorizedTransactionsState
  payout :: UseCategorizedTransactionsState
  currentCategory :: TransactionCategory
  effectDeps :: "TransactionCategory option"
  calls :: "service_call list"

definition useCategorizedTransactions :: "TransactionCategory \<Rightarrow> hook" where
  "useCategorizedTransactions initialCategory =
     \<lparr>collection = initialState, reversal = initialState, payout = initialState,
      currentCategory = initialCategory, effectDeps = None, calls = []\<rparr>"

text \<open>The three setters, each applied to an updater \<open>prev => next\<close>.\<close>

definition setCollection ::
  "(UseCategorizedTransactionsState \<Rightarrow> UseCategorizedTransactionsState) \<Rightarrow> hook \<Rightarrow> hook" where
  "setCollection f h = h\<lparr>collection := f (collection h)\<rparr>"

definition setReversal ::
  "(UseCategorizedTransactionsState \<Rightarrow> UseCategorizedTransactionsState) \<Rightarrow> hook \<Rightarrow> hook" where
  "setReversal f h = h\<lparr>reversal := f (reversal h)\<rparr>"

definition setPayout ::
  "(UseCategorizedTransactionsState \<Rightarrow> UseCategorizedTransactionsState) \<Rightarrow> hook \<Rightarrow> hook" where
  "setPayout f h = h\<lparr>payout := f (payout h)\<rparr>"

fun getCategorySetter :: "TransactionCategory \<Rightarrow>
    (UseCategorizedTransactionsState \<Rightarrow> UseCategorizedTransactionsState) \<Rightarrow> hook \<Rightarrow> hook" where
  "getCategorySetter Collection = setCollection"
| "getCategorySetter Reversal = setReversal"
| "getCategorySetter Payout = setPayout"

fun getCategoryState :: "TransactionCategory \<Rightarrow> hook \<Rightarrow> UseCategorizedTransactionsState" where
  "getCategoryState Collection h = collection h"
| "getCategoryState Reversal h = reversal h"
| "getCategoryState Payout h = payout h"

subsection \<open>The request\<close>

text \<open>Assignment of one property: in place when the key exists, appended otherwise.\<close>

fun assign :: "string \<Rightarrow> jsval \<Rightarrow> (string \<times> jsval) list \<Rightarrow> (string \<times> jsval) list" where
  "assign k v [] = [(k, v)]"
| "assign k v ((k', v') # kvs) = (if k = k' then (k, v) # kvs else (k', v') # assign k v kvs)"

text \<open>\<open>{...base, ...ps}\<close>: the properties of \<open>ps\<close> assigned onto \<open>base\<close> from left to right.\<close>

definition spread :: "(string \<times> jsval) list \<Rightarrow> (string \<times> jsval) list \<Rightarrow> (string \<times> jsval) list" where
  "spread base ps = foldl (\<lambda>acc kv. assign (fst kv) (snd kv) acc) base ps"

text \<open>
  \<open>{page: params?.page || 1, perPage: params?.perPage || 10, ...params}\<close>, where
  \<open>params\<close> is \<open>None\<close> when the argument is left out.
\<close>

definition request_params :: "(string \<times> jsval) list option \<Rightarrow> (string \<times> jsval) list" where
  "request_params params =
     (case params of
        None \<Rightarrow> [(''page'', JNum 1), (''perPage'', JNum 10)]
      | Some ps \<Rightarrow>
          spread [(''page'', js_or (js_get (JObj ps) ''page'') (JNum 1)),
                  (''perPage'', js_or (js_get (JObj ps) ''perPage'') (JNum 10))] ps)"

subsection \<open>Normalising the reply\<close>

text \<open>
  The body of \<open>if (isSuccess && responseData)\<close> up to the \<open>setState\<close>: the pair of
  \<open>transactions\<close> and \<open>meta\<close>, which start as \<open>[]\<close> and \<open>null\<close>.
\<close>

definition extractTransactions :: "jsval \<Rightarrow> jsval list \<times> jsval" where
  "extractTransactions responseData =
     (if truthy (js_get responseData ''data'') \<and> isArray (js_get responseData ''data'') then
        (elems (js_get responseData ''data''),
         JObj [(''page'', js_or (js_get responseData ''currentPage'') (JNum 1)),
               (''perPage'', js_or (js_get responseData ''perPage'') (JNum 10)),
               (''total'', js_or (js_get responseData ''total'') (JNum 0)),
               (''totalPages'', js_or (js_get responseData ''lastPage'') (JNum 1))])
      else if truthy (js_get responseData ''items'') \<and> isArray (js_get responseData ''items'') then
        (elems (js_get responseData ''items''), js_get responseData ''meta'')
      else if isArray responseData then
        (elems responseData, JNull)
      else if truthy (js_get responseData ''transactions'')
              \<and> isArray (js_get responseData ''transactions'') then
        (elems (js_get responseData ''transactions''), js_get responseData ''meta'')
      else
        (case filter isArray (object_values responseData) of
           [] \<Rightarrow> ([], JNull)
         | a # rest \<Rightarrow> (elems a, JNull)))"

text \<open>\<open>Math.ceil(n / 10)\<close> for a length \<open>n\<close>.\<close>

definition ceil_div10 :: "nat \<Rightarrow> int" where
  "ceil_div10 n = int ((n + 9) div 10)"

definition default_meta :: "jsval list \<Rightarrow> jsval" where
  "default_meta transactions =
     JObj [(''page'', JNum 1), (''perPage'', JNum 10),
           (''total'', JNum (int (length transactions))),
           (''totalPages'', JNum (ceil_div10 (length transactions)))]"

text \<open>The state written on the success branch.\<close>

definition normalized :: "jsval \<Rightarrow> UseCategorizedTransactionsState" where
  "normalized responseData =
     (let (transactions, m) = extractTransactions responseData in
      \<lparr>data = transactions,
       meta = (if truthy m then m else default_meta transactions),
       loading = False, error = None\<rparr>)"

definition isSuccess :: "jsval \<Rightarrow> bool" where
  "isSuccess response =
     (truthy (js_get response ''success'') \<or> js_get response ''status'' = JStr ''success'')"

text \<open>The \<open>catch\<close> clause.\<close>

fun errorMessage :: "thrown \<Rightarrow> string" where
  "errorMessage (ErrorInstance m) = m"
| "errorMessage (NonError v) = ''An unknown error occurred''"

definition on_catch :: "thrown \<Rightarrow> UseCategorizedTransactionsState \<Rightarrow> UseCategorizedTransactionsState" where
  "on_catch e prev = prev\<lparr>loading := False, error := Some (errorMessage e)\<rparr>"

text \<open>
  \<open>fetchTransactions\<close> runs in two steps around its \<open>await\<close>. Up to the \<open>await\<close> it
  marks the category as loading and calls the service.
\<close>

definition fetchTransactions_start ::
  "TransactionCategory \<Rightarrow> (string \<times> jsval) list option \<Rightarrow> hook \<Rightarrow> hook" where
  "fetchTransactions_start category params h =
     (let h1 = getCategorySetter category (\<lambda>prev. prev\<lparr>loading := True, error := None\<rparr>) h in
      h1\<lparr>calls := calls h1 @
            [\<lparr>call_type = TRANSACTION_CATEGORIES category,
              call_params = request_params params\<rparr>]\<rparr>)"

text \<open>
  When the call settles, the rest of the \<open>try\<close> block or the \<open>catch\<close> clause runs.
  Reading \<open>response.success\<close> from \<open>null\<close> or \<open>undefined\<close> throws inside the \<open>try\<close>.
\<close>

definition fetchTransactions_settle :: "TransactionCategory \<Rightarrow> outcome \<Rightarrow> hook \<Rightarrow> hook" where
  "fetchTransactions_settle category out h =
     (case out of
        Throws e \<Rightarrow> getCategorySetter category (on_catch e) h
      | Returns response \<Rightarrow>
          if nullish response then
            getCategorySetter category (on_catch (ErrorInstance typeErrorMessage)) h
          else if isSuccess response \<and> truthy (js_get response ''data'') then
            getCategorySetter category (\<lambda>prev. normalized (js_get response ''data'')) h
          else
            getCategorySetter category
              (\<lambda>prev. prev\<lparr>loading := False, error := Some ''Failed to fetch transactions''\<rparr>) h)"

text \<open>The whole call, when nothing else happens during the \<open>await\<close>.\<close>

definition fetchTransactions ::
  "TransactionCategory \<Rightarrow> (string \<times> jsval) list option \<Rightarrow> outcome \<Rightarrow> hook \<Rightarrow> hook" where
  "fetchTransactions category params out h =
     fetchTransactions_settle category out (fetchTransactions_start category params h)"

subsection \<open>The current category\<close>

text \<open>The \<open>useState\<close> setter of the current category.\<close>

definition setCurrentCategory :: "TransactionCategory \<Rightarrow> hook \<Rightarrow> hook" where
  "setCurrentCategory category h = h\<lparr>currentCategory := category\<rparr>"

text \<open>
  The effect \<open>useEffect(() => { fetchTransactions(currentCategory) },
  [currentCategory, fetchTransactions])\<close> at a commit: it runs on the first commit and
  whenever the dependency differs from the one it last ran with.
\<close>

definition commit :: "hook \<Rightarrow> hook" where
  "commit h =
     (if effectDeps h = Some (currentCategory h) then h
      else fetchTransactions_start (currentCategory h) None
             (h\<lparr>effectDeps := Some (currentCategory h)\<rparr>))"

text \<open>Mounting the hook is its first commit.\<close>

definition mount :: "TransactionCategory \<Rightarrow> hook" where
  "mount initialCategory = commit (useCategorizedTransactions initialCategory)"

text \<open>A \<open>setCurrentCategory\<close> step: the setter and the commit of the render it causes.\<close>

definition setCurrentCategory_step :: "TransactionCategory \<Rightarrow> hook \<Rightarrow> hook" where
  "setCurrentCategory_step category h = commit (setCurrentCategory category h)"

text \<open>\<open>refetch\<close> up to its \<open>await\<close>.\<close>

definition refetch_start :: "hook \<Rightarrow> hook" where
  "refetch_start h = fetchTransactions_start (currentCategory h) None h"

subsection \<open>The normalisation policy as the specification words it\<close>

text \<open>
  The specification lists five rules in priority order, the first match winning:
  (a) a nested \<open>data\<close> array, (b) an \<open>items\<close> array, (c) the payload is itself an
  array, (d) a \<open>transactions\<close> array, (e) the first array among the values of the
  payload. Each rule gives the array it finds, or nothing.
\<close>

definition spec_rule_a :: "jsval \<Rightarrow> jsval list option" where
  "spec_rule_a payload = (case js_get payload ''data'' of JArr xs \<Rightarrow> Some xs | _ \<Rightarrow> None)"

definition spec_rule_b :: "jsval \<Rightarrow> jsval list option" where
  "spec_rule_b payload = (case js_get payload ''items'' of JArr xs \<Rightarrow> Some xs | _ \<Rightarrow> None)"

definition spec_rule_c :: "jsval \<Rightarrow> jsval list option" where
  "spec_rule_c payload = (case payload of JArr xs \<Rightarrow> Some xs | _ \<Rightarrow> None)"

definition spec_rule_d :: "jsval \<Rightarrow> jsval list option" where
  "spec_rule_d payload = (case js_get payload ''transactions'' of JArr xs \<Rightarrow> Some xs | _ \<Rightarrow> None)"

definition spec_rule_e :: "jsval \<Rightarrow> jsval list option" where
  "spec_rule_e payload =
     (case find isArray (object_values payload) of Some (JArr xs) \<Rightarrow> Some xs | _ \<Rightarrow> None)"

fun first_match :: "(jsval \<Rightarrow> jsval list option) list \<Rightarrow> jsval \<Rightarrow> jsval list option" where
  "first_match [] payload = None"
| "first_match (r # rs) payload =
     (case r payload of Some xs \<Rightarrow> Some xs | None \<Rightarrow> first_match rs payload)"

definition spec_rules :: "(jsval \<Rightarrow> jsval list option) list" where
  "spec_rules = [spec_rule_a, spec_rule_b, spec_rule_c, spec_rule_d, spec_rule_e]"

definition spec_transactions :: "jsval \<Rightarrow> jsval list" where
  "spec_transactions payload =
     (case first_match spec_rules payload of Some xs \<Rightarrow> xs | None \<Rightarrow> [])"

text \<open>No rule finds an array in the payload.\<close>

definition no_array_found :: "jsval \<Rightarrow> bool" where
  "no_array_found payload =
     (\<not> isArray (js_get payload ''data'') \<and> \<not> isArray (js_get payload ''items'')
      \<and> \<not> isArray payload \<and> \<not> isArray (js_get payload ''transactions'')
      \<and> filter isArray (object_values payload) = [])"

section \<open>The cascading filter hook\<close>

record EnhancedTransactionFilters =
  partnerBankId :: string
  merchantId :: string
  subMerchantId :: string
  startDate :: string
  endDate :: string
  transactionType :: string
  searchTerm :: string
  perPage :: string

definition initialFilters :: EnhancedTransactionFilters where
  "initialFilters =
     \<lparr>partnerBankId = ''all'', merchantId = ''all'', subMerchantId = ''all'',
      startDate = [], endDate = [], transactionType = ''all'', searchTerm = [],
      perPage = ''10''\<rparr>"

text \<open>\<open>FilterOption\<close>, the fields \<open>id\<close>, \<open>name\<close> and \<open>value\<close>.\<close>

record FilterOption =
  option_id :: jsval
  option_name :: jsval
  option_value :: jsval

definition createInitialOption :: FilterOption where
  "createInitialOption =
     \<lparr>option_id = JStr ''all'', option_name = JStr ''-- All --'', option_value = JStr ''all''\<rparr>"

record option_loading =
  loading_partnerBanks :: bool
  loading_merchants :: bool
  loading_subMerchants :: bool

record option_error =
  error_partnerBanks :: "string option"
  error_merchants :: "string option"
  error_subMerchants :: "string option"

text \<open>\<open>TransactionFilterData\<close>, the fields \<open>loading\<close> and \<open>error\<close> being the last two.\<close>

record TransactionFilterData =
  partnerBanks :: "FilterOption list"
  merchants :: "FilterOption list"
  subMerchants :: "FilterOption list"
  filter_loading :: option_loading
  filter_error :: option_error

definition initialFilterData :: TransactionFilterData where
  "initialFilterData =
     \<lparr>partnerBanks = [createInitialOption], merchants = [createInitialOption],
      subMerchants = [createInitialOption],
      filter_loading = \<lparr>loading_partnerBanks = False, loading_merchants = False,
                         loading_subMerchants = False\<rparr>,
      filter_error = \<lparr>error_partnerBanks = None, error_merchants = None,
                       error_subMerchants = None\<rparr>\<rparr>"

text \<open>The calls the hook makes to the bank and merchant services.\<close>

datatype option_call =
    GetPartnerBanks
  | GetMerchantsByPartnerBank string
  | GetSubMerchantsByMerchant string

record filters_hook =
  filters :: EnhancedTransactionFilters
  filterData :: TransactionFilterData
  option_calls :: "option_call list"

definition setFilters ::
  "(EnhancedTransactionFilters \<Rightarrow> EnhancedTransactionFilters) \<Rightarrow> filters_hook \<Rightarrow> filters_hook" where
  "setFilters f h = h\<lparr>filters := f (filters h)\<rparr>"

definition setFilterData ::
  "(TransactionFilterData \<Rightarrow> TransactionFilterData) \<Rightarrow> filters_hook \<Rightarrow> filters_hook" where
  "setFilterData f h = h\<lparr>filterData := f (filterData h)\<rparr>"

definition call_service :: "option_call \<Rightarrow> filters_hook \<Rightarrow> filters_hook" where
  "call_service c h = h\<lparr>option_calls := option_calls h @ [c]\<rparr>"

subsection \<open>Entities to options\<close>

definition allOption :: FilterOption where
  "allOption =
     \<lparr>option_id = JStr ''all'', option_name = JStr ''-- All --'', option_value = JStr ''all''\<rparr>"

definition convertPartnerBank :: "jsval \<Rightarrow> FilterOption" where
  "convertPartnerBank bank =
     (let bankId = js_or (js_or (js_or (js_or (js_get bank ''id'') (js_get bank ''uuid''))
                      (js_get bank ''_id'')) (js_get bank ''bankId'')) (js_get bank ''name'');
          bankName = js_or (js_or (js_or (js_get bank ''name'') (js_get bank ''bankName''))
                      (js_get bank ''title'')) bankId
      in \<lparr>option_id = bankId, option_name = bankName, option_value = bankId\<rparr>)"

definition convertMerchant :: "jsval \<Rightarrow> FilterOption" where
  "convertMerchant merchant =
     (let merchantId = js_or (js_or (js_or (js_or (js_get merchant ''id'') (js_get merchant ''uuid''))
                      (js_get merchant ''_id'')) (js_get merchant ''merchantId''))
                      (js_get merchant ''name'');
          merchantName = js_or (js_or (js_or (js_or (js_get merchant ''businessName'')
                      (js_get merchant ''name'')) (js_get merchant ''merchantName''))
                      (js_get merchant ''title'')) merchantId
      in \<lparr>option_id = merchantId, option_name = merchantName, option_value = merchantId\<rparr>)"

definition convertSubMerchant :: "jsval \<Rightarrow> FilterOption" where
  "convertSubMerchant subMerchant =
     \<lparr>option_id = js_get subMerchant ''id'',
      option_name = js_or (js_get subMerchant ''businessName'') (js_get subMerchant ''name''),
      option_value = js_get subMerchant ''id''\<rparr>"

text \<open>
  \<open>[allOption, ...xs.map(convert)]\<close>. The service result is typed as an array of
  entities, but nothing checks it: \<open>xs.map\<close> on a value that is not an array, and a
  property read on an element that is \<open>null\<close> or \<open>undefined\<close>, throw a TypeError
  (\<open>None\<close>).
\<close>

definition convertToOptions :: "(jsval \<Rightarrow> FilterOption) \<Rightarrow> jsval \<Rightarrow> FilterOption list option" where
  "convertToOptions convert xs =
     (if isArray xs \<and> filter nullish (elems xs) = []
      then Some (allOption # map convert (elems xs)) else None)"

definition convertPartnerBanksToOptions :: "jsval \<Rightarrow> FilterOption list option" where
  "convertPartnerBanksToOptions = convertToOptions convertPartnerBank"

definition convertMerchantsToOptions :: "jsval \<Rightarrow> FilterOption list option" where
  "convertMerchantsToOptions = convertToOptions convertMerchant"

definition convertSubMerchantsToOptions :: "jsval \<Rightarrow> FilterOption list option" where
  "convertSubMerchantsToOptions = convertToOptions convertSubMerchant"

text \<open>\<open>error instanceof Error ? error.message : fallback\<close>.\<close>

fun message_or :: "string \<Rightarrow> thrown \<Rightarrow> string" where
  "message_or fallback (ErrorInstance m) = m"
| "message_or fallback (NonError v) = fallback"

subsection \<open>Fetching the option lists\<close>

text \<open>Each fetch runs up to its \<open>await\<close>, and later settles.\<close>

definition fetchPartnerBanks_start :: "filters_hook \<Rightarrow> filters_hook" where
  "fetchPartnerBanks_start h =
     call_service GetPartnerBanks
       (setFilterData (\<lambda>prev. prev\<lparr>
            filter_loading := (filter_loading prev)\<lparr>loading_partnerBanks := True\<rparr>,
            filter_error := (filter_error prev)\<lparr>error_partnerBanks := None\<rparr>\<rparr>) h)"

definition fetchPartnerBanks_catch :: "thrown \<Rightarrow> filters_hook \<Rightarrow> filters_hook" where
  "fetchPartnerBanks_catch e h =
     setFilterData (\<lambda>prev. prev\<lparr>
        filter_loading := (filter_loading prev)\<lparr>loading_partnerBanks := False\<rparr>,
        filter_error := (filter_error prev)\<lparr>error_partnerBanks :=
           Some (message_or ''Failed to fetch partner banks'' e)\<rparr>\<rparr>) h"

definition fetchPartnerBanks_settle :: "outcome \<Rightarrow> filters_hook \<Rightarrow> filters_hook" where
  "fetchPartnerBanks_settle out h =
     (case out of
        Throws e \<Rightarrow> fetchPartnerBanks_catch e h
      | Returns banks \<Rightarrow>
          (case convertPartnerBanksToOptions banks of
             None \<Rightarrow> fetchPartnerBanks_catch (ErrorInstance typeErrorMessage) h
           | Some options \<Rightarrow>
               setFilterData (\<lambda>prev. prev\<lparr>partnerBanks := options,
                  filter_loading := (filter_loading prev)\<lparr>loading_partnerBanks := False\<rparr>\<rparr>) h))"

definition fetchMerchantsByPartnerBank_start :: "string \<Rightarrow> filters_hook \<Rightarrow> filters_hook" where
  "fetchMerchantsByPartnerBank_start partnerBankId' h =
     (if partnerBankId' = ''all'' then
        setFilterData (\<lambda>prev. prev\<lparr>merchants := [createInitialOption]\<rparr>) h
      else
        call_service (GetMerchantsByPartnerBank partnerBankId')
          (setFilterData (\<lambda>prev. prev\<lparr>
               filter_loading := (filter_loading prev)\<lparr>loading_merchants := True\<rparr>,
               filter_error := (filter_error prev)\<lparr>error_merchants := None\<rparr>\<rparr>) h))"

definition fetchMerchantsByPartnerBank_catch :: "thrown \<Rightarrow> filters_hook \<Rightarrow> filters_hook" where
  "fetchMerchantsByPartnerBank_catch e h =
     setFilterData (\<lambda>prev. prev\<lparr>merchants := [createInitialOption],
        filter_loading := (filter_loading prev)\<lparr>loading_merchants := False\<rparr>,
        filter_error := (filter_error prev)\<lparr>error_merchants :=
           Some (message_or ''Failed to fetch merchants'' e)\<rparr>\<rparr>) h"

definition fetchMerchantsByPartnerBank_settle :: "outcome \<Rightarrow> filters_hook \<Rightarrow> filters_hook" where
  "fetchMerchantsByPartnerBank_settle out h =
     (case out of
        Throws e \<Rightarrow> fetchMerchantsByPartnerBank_catch e h
      | Returns ms \<Rightarrow>
          (case convertMerchantsToOptions ms of
             None \<Rightarrow> fetchMerchantsByPartnerBank_catch (ErrorInstance typeErrorMessage) h
           | Some options \<Rightarrow>
               setFilterData (\<lambda>prev. prev\<lparr>merchants := options,
                  filter_loading := (filter_loading prev)\<lparr>loading_merchants := False\<rparr>\<rparr>) h))"

definition fetchSubMerchantsByMerchant_start :: "string \<Rightarrow> filters_hook \<Rightarrow> filters_hook" where
  "fetchSubMerchantsByMerchant_start merchantId' h =
     (if merchantId' = ''all'' then
        setFilterData (\<lambda>prev. prev\<lparr>subMerchants := [createInitialOption]\<rparr>) h
      else
        call_service (GetSubMerchantsByMerchant merchantId')
          (setFilterData (\<lambda>prev. prev\<lparr>
               filter_loading := (filter_loading prev)\<lparr>loading_subMerchants := True\<rparr>,
               filter_error := (filter_error prev)\<lparr>error_subMerchants := None\<rparr>\<rparr>) h))"

definition fetchSubMerchantsByMerchant_catch :: "thrown \<Rightarrow> filters_hook \<Rightarrow> filters_hook" where
  "fetchSubMerchantsByMerchant_catch e h =
     setFilterData (\<lambda>prev. prev\<lparr>subMerchants := [createInitialOption],
        filter_loading := (filter_loading prev)\<lparr>loading_subMerchants := False\<rparr>,
        filter_error := (filter_error prev)\<lparr>error_subMerchants :=
           Some (message_or ''Failed to fetch sub-merchants'' e)\<rparr>\<rparr>) h"

definition fetchSubMerchantsByMerchant_settle :: "outcome \<Rightarrow> filters_hook \<Rightarrow> filters_hook" where
  "fetchSubMerchantsByMerchant_settle out h =
     (case out of
        Throws e \<Rightarrow> fetchSubMerchantsByMerchant_catch e h
      | Returns ms \<Rightarrow>
          (case convertSubMerchantsToOptions ms of
             None \<Rightarrow> fetchSubMerchantsByMerchant_catch (ErrorInstance typeErrorMessage) h
           | Some options \<Rightarrow>
               setFilterData (\<lambda>prev. prev\<lparr>subMerchants := options,
                  filter_loading := (filter_loading prev)\<lparr>loading_subMerchants := False\<rparr>\<rparr>) h))"

subsection \<open>Actions\<close>

text \<open>
  Each action is what runs synchronously in the call: the state updates and, for the
  two cascading setters, the fetch up to its \<open>await\<close>.
\<close>

definition setPartnerBank :: "string \<Rightarrow> filters_hook \<Rightarrow> filters_hook" where
  "setPartnerBank id' h =
     fetchMerchantsByPartnerBank_start id'
       (setFilterData (\<lambda>prev. prev\<lparr>merchants := [createInitialOption],
                                     subMerchants := [createInitialOption]\<rparr>)
          (setFilters (\<lambda>prev. prev\<lparr>partnerBankId := id', merchantId := ''all'',
                                     subMerchantId := ''all''\<rparr>) h))"

definition setMerchant :: "string \<Rightarrow> filters_hook \<Rightarrow> filters_hook" where
  "setMerchant id' h =
     fetchSubMerchantsByMerchant_start id'
       (setFilterData (\<lambda>prev. prev\<lparr>subMerchants := [createInitialOption]\<rparr>)
          (setFilters (\<lambda>prev. prev\<lparr>merchantId := id', subMerchantId := ''all''\<rparr>) h))"

definition setSubMerchant :: "string \<Rightarrow> filters_hook \<Rightarrow> filters_hook" where
  "setSubMerchant id' h = setFilters (\<lambda>prev. prev\<lparr>subMerchantId := id'\<rparr>) h"

definition setDateRange :: "string \<Rightarrow> string \<Rightarrow> filters_hook \<Rightarrow> filters_hook" where
  "setDateRange start end' h = setFilters (\<lambda>prev. prev\<lparr>startDate := start, endDate := end'\<rparr>) h"

definition setTransactionType :: "string \<Rightarrow> filters_hook \<Rightarrow> filters_hook" where
  "setTransactionType type' h = setFilters (\<lambda>prev. prev\<lparr>transactionType := type'\<rparr>) h"

definition setSearchTerm :: "string \<Rightarrow> filters_hook \<Rightarrow> filters_hook" where
  "setSearchTerm term' h = setFilters (\<lambda>prev. prev\<lparr>searchTerm := term'\<rparr>) h"

definition setPerPage :: "string \<Rightarrow> filters_hook \<Rightarrow> filters_hook" where
  "setPerPage perPage' h = setFilters (\<lambda>prev. prev\<lparr>perPage := perPage'\<rparr>) h"

definition clearFilters :: "filters_hook \<Rightarrow> filters_hook" where
  "clearFilters h =
     setFilterData (\<lambda>prev. prev\<lparr>merchants := [createInitialOption],
                                   subMerchants := [createInitialOption]\<rparr>)
       (setFilters (\<lambda>prev. initialFilters) h)"

text \<open>The hook before its first commit, and after it: the mount effect fetches the banks.\<close>

definition useTransactionFilters :: filters_hook where
  "useTransactionFilters =
     \<lparr>filters = initialFilters, filterData = initialFilterData, option_calls = []\<rparr>"

definition mounted_filters :: filters_hook where
  "mounted_filters = fetchPartnerBanks_start useTransactionFilters"

text \<open>
  Everything that can happen to a mounted hook: an action of the caller, or one of
  the pending fetches settling.
\<close>

datatype filter_event =
    SetPartnerBank string
  | SetMerchant string
  | SetSubMerchant string
  | SetDateRange string string
  | SetTransactionType string
  | SetSearchTerm string
  | SetPerPage string
  | ClearFilters
  | PartnerBanksSettled outcome
  | MerchantsSettled outcome
  | SubMerchantsSettled outcome

fun filter_step :: "filters_hook \<Rightarrow> filter_event \<Rightarrow> filters_hook" where
  "filter_step h (SetPartnerBank i) = setPartnerBank i h"
| "filter_step h (SetMerchant i) = setMerchant i h"
| "filter_step h (SetSubMerchant i) = setSubMerchant i h"
| "filter_step h (SetDateRange s e) = setDateRange s e h"
| "filter_step h (SetTransactionType t) = setTransactionType t h"
| "filter_step h (SetSearchTerm t) = setSearchTerm t h"
| "filter_step h (SetPerPage p) = setPerPage p h"
| "filter_step h ClearFilters = clearFilters h"
| "filter_step h (PartnerBanksSettled out) = fetchPartnerBanks_settle out h"
| "filter_step h (MerchantsSettled out) = fetchMerchantsByPartnerBank_settle out h"
| "filter_step h (SubMerchantsSettled out) = fetchSubMerchantsByMerchant_settle out h"

definition run_filter_events :: "filter_event list \<Rightarrow> filters_hook" where
  "run_filter_events evs = foldl filter_step mounted_filters evs"

text \<open>A list of options starts with the sentinel.\<close>

definition sentinel_first :: "FilterOption list \<Rightarrow> bool" where
  "sentinel_first xs = (case xs of [] \<Rightarrow> False | x # rest \<Rightarrow> x = createInitialOption)"

definition option_lists_ok :: "filters_hook \<Rightarrow> bool" where
  "option_lists_ok h =
     (sentinel_first (partnerBanks (filterData h)) \<and> sentinel_first (merchants (filterData h))
      \<and> sentinel_first (subMerchants (filterData h)))"

section \<open>The API client\<close>

text \<open>
  The two storage tiers and the location of a browser window; \<open>typeof window\<close> is
  \<open>'undefined'\<close> where there is none (\<open>None\<close>).
\<close>

record browser =
  localStorage :: "string \<rightharpoonup> string"
  sessionStorage :: "string \<rightharpoonup> string"
  location_href :: string

text \<open>
  The error the response interceptor receives: \<open>error.response?.status\<close>,
  \<open>error.message\<close> and \<open>error.name\<close>.
\<close>

record request_error =
  response_status :: "nat option"
  error_message :: string
  error_name :: string

definition handleUnauthorized :: "browser option \<Rightarrow> browser option" where
  "handleUnauthorized window =
     (case window of
        None \<Rightarrow> None
      | Some w \<Rightarrow>
          Some (w\<lparr>localStorage := (localStorage w)(''auth_token'' := None),
                  sessionStorage := (sessionStorage w)(''auth_token'' := None),
                  location_href := ''/login''\<rparr>))"

text \<open>\<open>s.includes(sub)\<close>.\<close>

fun str_includes :: "string \<Rightarrow> string \<Rightarrow> bool" where
  "str_includes [] sub = (sub = [])"
| "str_includes (c # cs) sub = (prefix sub (c # cs) \<or> str_includes cs sub)"

text \<open>
  The rejection handler of the response interceptor. It always ends in
  \<open>Promise.reject(error)\<close>: the result is the window and the rejected error.
\<close>

definition onResponseError :: "request_error \<Rightarrow> browser option \<Rightarrow> browser option \<times> request_error" where
  "onResponseError err window =
     (let window' = (if response_status err = Some 401 then handleUnauthorized window else window);
          err' = (if str_includes (error_message err) ''JSON'' \<or> error_name err = ''SyntaxError''
                  then err\<lparr>error_message := ''Server returned invalid JSON data. Please try again.''\<rparr>
                  else err)
      in (window', err'))"

section \<open>Properties of the categorized transactions hook\<close>

subsection \<open>What a setter touches\<close>

lemma getCategorySetter_other:
  "A \<noteq> B \<Longrightarrow> getCategoryState B (getCategorySetter A f h) = getCategoryState B h"
  by (cases A; cases B) (simp_all add: setCollection_def setReversal_def setPayout_def)

lemma getCategorySetter_same:
  "getCategoryState c (getCategorySetter c f h) = f (getCategoryState c h)"
  by (cases c) (simp_all add: setCollection_def setReversal_def setPayout_def)

lemma getCategorySetter_rest:
  "currentCategory (getCategorySetter c f h) = currentCategory h"
  "effectDeps (getCategorySetter c f h) = effectDeps h"
  "calls (getCategorySetter c f h) = calls h"
  by (cases c; simp add: setCollection_def setReversal_def setPayout_def)+

lemma getCategoryState_calls_update:
  "getCategoryState c (h\<lparr>calls := cs\<rparr>) = getCategoryState c h"
  by (cases c) simp_all

lemma getCategoryState_effectDeps_update:
  "getCategoryState c (h\<lparr>effectDeps := d\<rparr>) = getCategoryState c h"
  by (cases c) simp_all

lemma start_other:
  "A \<noteq> B \<Longrightarrow> getCategoryState B (fetchTransactions_start A params h) = getCategoryState B h"
  by (simp add: fetchTransactions_start_def Let_def getCategoryState_calls_update
      getCategorySetter_other)

lemma settle_other:
  "A \<noteq> B \<Longrightarrow> getCategoryState B (fetchTransactions_settle A out h) = getCategoryState B h"
  by (simp add: fetchTransactions_settle_def getCategorySetter_other split: outcome.splits)

lemma start_currentCategory:
  "currentCategory (fetchTransactions_start c params h) = currentCategory h"
  by (simp add: fetchTransactions_start_def Let_def getCategorySetter_rest)

lemma settle_currentCategory:
  "currentCategory (fetchTransactions_settle c out h) = currentCategory h"
  by (simp add: fetchTransactions_settle_def getCategorySetter_rest split: outcome.splits)

lemma start_same:
  "getCategoryState c (fetchTransactions_start c params h)
     = (getCategoryState c h)\<lparr>loading := True, error := None\<rparr>"
  by (simp add: fetchTransactions_start_def Let_def getCategoryState_calls_update
      getCategorySetter_same)

lemma start_calls:
  "calls (fetchTransactions_start c params h)
     = calls h @ [\<lparr>call_type = TRANSACTION_CATEGORIES c, call_params = request_params params\<rparr>]"
  by (simp add: fetchTransactions_start_def Let_def getCategorySetter_rest)

lemma settle_calls:
  "calls (fetchTransactions_settle c out h) = calls h"
  by (simp add: fetchTransactions_settle_def getCategorySetter_rest split: outcome.splits)

lemma settle_throws:
  "getCategoryState c (fetchTransactions_settle c (Throws e) h)
     = (getCategoryState c h)\<lparr>loading := False, error := Some (errorMessage e)\<rparr>"
  by (simp add: fetchTransactions_settle_def getCategorySetter_same on_catch_def)

lemma normalized_loading: "loading (normalized rd) = False"
  by (simp add: normalized_def split: prod.splits)

lemma settle_loading:
  "loading (getCategoryState c (fetchTransactions_settle c out h)) = False"
  by (simp add: fetchTransactions_settle_def getCategorySetter_same on_catch_def
      normalized_loading split: outcome.splits)

text \<open>
  Claim C1. Fetching category \<open>A\<close> never changes the state record of another category
  \<open>B\<close>: neither the step up to the \<open>await\<close>, nor the step that settles the call, nor
  the two together write any slot but the one \<open>getCategorySetter A\<close> selects, and the
  current category stays as it is.
\<close>

theorem fetchTransactions_frame:
  assumes "A \<noteq> B"
  shows "getCategoryState B (fetchTransactions_start A params h) = getCategoryState B h
       \<and> getCategoryState B (fetchTransactions_settle A out h) = getCategoryState B h
       \<and> getCategoryState B (fetchTransactions A params out h) = getCategoryState B h
       \<and> currentCategory (fetchTransactions A params out h) = currentCategory h"
  using assms
  by (simp add: fetchTransactions_def start_other settle_other start_currentCategory
      settle_currentCategory)

theorem fetchTransactions_frame_witness:
  "Collection \<noteq> Reversal
   \<and> getCategoryState Reversal
        (fetchTransactions Collection None
           (Returns (JObj [(''success'', JBool True), (''data'', JArr [JNum 7])]))
           (mount Reversal))
       = getCategoryState Reversal (mount Reversal)"
  using fetchTransactions_frame [where A = Collection and B = Reversal and params = None
      and h = "mount Reversal"
      and out = "Returns (JObj [(''success'', JBool True), (''data'', JArr [JNum 7])])"]
  by simp

subsection \<open>Completion of a fetch\<close>

text \<open>
  Claim C9. Whatever the outcome of the service call, the category's loading flag is
  false once \<open>fetchTransactions\<close> has completed (for the whole call and for the
  settling step on any state). When the call throws an \<open>Error\<close> with message \<open>m\<close>,
  the category's error becomes \<open>m\<close> and its data and meta are the ones it had.
\<close>

theorem fetchTransactions_completion:
  "loading (getCategoryState c (fetchTransactions c params out h)) = False
   \<and> loading (getCategoryState c (fetchTransactions_settle c out h)) = False
   \<and> error (getCategoryState c (fetchTransactions c params (Throws (ErrorInstance m)) h)) = Some m
   \<and> data (getCategoryState c (fetchTransactions c params (Throws (ErrorInstance m)) h))
       = data (getCategoryState c h)
   \<and> meta (getCategoryState c (fetchTransactions c params (Throws (ErrorInstance m)) h))
       = meta (getCategoryState c h)
   \<and> getCategoryState c (fetchTransactions_settle c (Throws (ErrorInstance m)) h)
       = (getCategoryState c h)\<lparr>loading := False, error := Some m\<rparr>"
  by (simp add: fetchTransactions_def settle_loading settle_throws start_same)

theorem fetchTransactions_completion_witness:
  "loading (payout (fetchTransactions Payout None (Returns JNull) (mount Payout))) = False
   \<and> error (payout (fetchTransactions Payout None
         (Throws (ErrorInstance ''Network Error'')) (mount Payout))) = Some ''Network Error''
   \<and> data (payout (fetchTransactions Payout None
         (Throws (ErrorInstance ''Network Error'')) (mount Payout))) = data (payout (mount Payout))"
  using fetchTransactions_completion [where c = Payout and params = None
      and out = "Returns JNull" and h = "mount Payout" and m = "''Network Error''"]
  by simp

subsection \<open>The success branch\<close>

lemma isArray_iff: "isArray v \<longleftrightarrow> (\<exists>xs. v = JArr xs)"
  by (cases v) simp_all

lemma isArray_truthy: "isArray v \<Longrightarrow> truthy v"
  by (cases v) simp_all

lemma and_isArray: "(truthy v \<and> isArray v) = isArray v"
  using isArray_truthy by blast

lemma js_get_isArray_truthy: "isArray (js_get v k) \<Longrightarrow> truthy v"
  by (cases v) simp_all

lemma settle_success:
  assumes "isSuccess response" and "truthy (js_get response ''data'')"
  shows "getCategoryState c (fetchTransactions_settle c (Returns response) h)
           = normalized (js_get response ''data'')"
proof -
  have "\<not> nullish response" using assms(2) by (cases response) simp_all
  then show ?thesis using assms
    by (simp add: fetchTransactions_settle_def getCategorySetter_same)
qed

lemma fetch_success:
  assumes "isSuccess response" and "truthy (js_get response ''data'')"
  shows "getCategoryState c (fetchTransactions c params (Returns response) h)
           = normalized (js_get response ''data'')"
  using assms by (simp add: fetchTransactions_def settle_success)

text \<open>
  Claim C3, as amended. For a successful reply whose payload has a nested \<open>data\<close>
  array, the stored \<open>meta.totalPages\<close> is the payload's \<open>lastPage\<close> whenever
  \<open>lastPage\<close> is truthy (any number but 0), and 1 when \<open>lastPage\<close> is 0, null or
  missing: the code writes \<open>lastPage || 1\<close>.
\<close>

theorem totalPages_shape_a:
  assumes "isSuccess response"
    and "isArray (js_get (js_get response ''data'') ''data'')"
  shows "js_get (meta (getCategoryState c (fetchTransactions c params (Returns response) h)))
           ''totalPages''
         = (if truthy (js_get (js_get response ''data'') ''lastPage'')
            then js_get (js_get response ''data'') ''lastPage'' else JNum 1)"
proof -
  have t: "truthy (js_get response ''data'')"
    using assms(2) by (rule js_get_isArray_truthy)
  have "meta (normalized (js_get response ''data''))
          = JObj [(''page'', js_or (js_get (js_get response ''data'') ''currentPage'') (JNum 1)),
               (''perPage'', js_or (js_get (js_get response ''data'') ''perPage'') (JNum 10)),
               (''total'', js_or (js_get (js_get response ''data'') ''total'') (JNum 0)),
               (''totalPages'', js_or (js_get (js_get response ''data'') ''lastPage'') (JNum 1))]"
    using assms(2) by (simp add: normalized_def extractTransactions_def isArray_truthy)
  then show ?thesis
    using assms(1) t by (simp add: fetch_success js_or_def)
qed

theorem totalPages_shape_a_witness:
  "isSuccess (JObj [(''success'', JBool True),
      (''data'', JObj [(''data'', JArr [JNum 5]), (''currentPage'', JNum 2),
                       (''perPage'', JNum 10), (''total'', JNum 61), (''lastPage'', JNum 7)])])
   \<and> js_get (meta (collection (fetchTransactions Collection None
        (Returns (JObj [(''success'', JBool True),
           (''data'', JObj [(''data'', JArr [JNum 5]), (''currentPage'', JNum 2),
                            (''perPage'', JNum 10), (''total'', JNum 61),
                            (''lastPage'', JNum 7)])]))
        (mount Collection)))) ''totalPages'' = JNum 7"
proof -
  let ?r = "JObj [(''success'', JBool True),
      (''data'', JObj [(''data'', JArr [JNum 5]), (''currentPage'', JNum 2),
                       (''perPage'', JNum 10), (''total'', JNum 61), (''lastPage'', JNum 7)])]"
  have s: "isSuccess ?r" by (simp add: isSuccess_def)
  have a: "isArray (js_get (js_get ?r ''data'') ''data'')" by simp
  show ?thesis
    using s totalPages_shape_a [OF s a, where c = Collection and params = None
        and h = "mount Collection"]
    by simp
qed

text \<open>
  Claim C3 as stated fails when the server sends \<open>lastPage = 0\<close> (an empty result
  set): the stored \<open>totalPages\<close> is 1.
\<close>

theorem totalPages_lastPage_zero:
  "isSuccess (JObj [(''success'', JBool True),
      (''data'', JObj [(''data'', JArr []), (''currentPage'', JNum 1),
                       (''perPage'', JNum 10), (''total'', JNum 0), (''lastPage'', JNum 0)])])
   \<and> js_get (meta (getCategoryState Collection
        (fetchTransactions Collection None
           (Returns (JObj [(''success'', JBool True),
              (''data'', JObj [(''data'', JArr []), (''currentPage'', JNum 1),
                               (''perPage'', JNum 10), (''total'', JNum 0),
                               (''lastPage'', JNum 0)])]))
           (useCategorizedTransactions Collection)))) ''totalPages''
     \<noteq> js_get (JObj [(''data'', JArr []), (''currentPage'', JNum 1),
                      (''perPage'', JNum 10), (''total'', JNum 0), (''lastPage'', JNum 0)])
          ''lastPage''"
  by (simp add: fetchTransactions_def fetchTransactions_settle_def fetchTransactions_start_def
      useCategorizedTransactions_def setCollection_def isSuccess_def normalized_def
      extractTransactions_def js_or_def Let_def)

lemma extract_no_array:
  assumes "no_array_found rd"
  shows "extractTransactions rd = ([], JNull)"
  using assms by (simp add: no_array_found_def extractTransactions_def)

text \<open>
  Claim C4, as amended. For a reply that passes the hook's success test (\<open>success\<close>
  truthy or \<open>status = "success"\<close>, and a truthy \<open>data\<close> payload) in whose payload no
  rule finds an array, the call completes with no error and the category's state is
  \<open>data = []\<close> with \<open>meta = {page: 1, perPage: 10, total: 0, totalPages: 0}\<close>: the
  default \<open>totalPages\<close> is \<open>Math.ceil(0 / 10)\<close>.
\<close>

theorem no_array_default:
  assumes "isSuccess response"
    and "truthy (js_get response ''data'')"
    and "no_array_found (js_get response ''data'')"
  shows "getCategoryState c (fetchTransactions c params (Returns response) h)
         = \<lparr>data = [],
            meta = JObj [(''page'', JNum 1), (''perPage'', JNum 10), (''total'', JNum 0),
                         (''totalPages'', JNum 0)],
            loading = False, error = None\<rparr>"
  using assms
  by (simp add: fetch_success normalized_def extract_no_array default_meta_def ceil_div10_def)

theorem no_array_default_witness:
  "isSuccess (JObj [(''status'', JStr ''success''), (''data'', JObj [(''count'', JNum 0)])])
   \<and> no_array_found (JObj [(''count'', JNum 0)])
   \<and> reversal (fetchTransactions Reversal None
        (Returns (JObj [(''status'', JStr ''success''), (''data'', JObj [(''count'', JNum 0)])]))
        (mount Collection))
     = \<lparr>data = [],
        meta = JObj [(''page'', JNum 1), (''perPage'', JNum 10), (''total'', JNum 0),
                     (''totalPages'', JNum 0)],
        loading = False, error = None\<rparr>"
proof -
  let ?r = "JObj [(''status'', JStr ''success''), (''data'', JObj [(''count'', JNum 0)])]"
  have s: "isSuccess ?r" by (simp add: isSuccess_def)
  have t: "truthy (js_get ?r ''data'')" by simp
  have n: "no_array_found (js_get ?r ''data'')" by (simp add: no_array_found_def)
  show ?thesis
    using s n no_array_default [OF s t n, where c = Reversal and params = None
        and h = "mount Collection"]
    by simp
qed

text \<open>
  Claim C4 as stated fails on \<open>{success: true, data: {count: 0}}\<close>: no rule finds an
  array, and the stored meta is not \<open>{page: 1, perPage: 10, total: 0, totalPages: 1}\<close>.
\<close>

theorem no_array_totalPages_not_one:
  "isSuccess (JObj [(''success'', JBool True), (''data'', JObj [(''count'', JNum 0)])])
   \<and> no_array_found (JObj [(''count'', JNum 0)])
   \<and> meta (getCategoryState Collection
        (fetchTransactions Collection None
           (Returns (JObj [(''success'', JBool True), (''data'', JObj [(''count'', JNum 0)])]))
           (useCategorizedTransactions Collection)))
     \<noteq> JObj [(''page'', JNum 1), (''perPage'', JNum 10), (''total'', JNum 0),
              (''totalPages'', JNum 1)]"
  by (simp add: fetchTransactions_def fetchTransactions_settle_def fetchTransactions_start_def
      useCategorizedTransactions_def setCollection_def isSuccess_def normalized_def
      extractTransactions_def no_array_found_def default_meta_def ceil_div10_def Let_def)

subsection \<open>The priority of the shapes\<close>

lemma find_filter_head:
  "find P xs = (case filter P xs of [] \<Rightarrow> None | x # rest \<Rightarrow> Some x)"
  by (induction xs) auto

lemma spec_rule_e_eq:
  "spec_rule_e rd
     = (case filter isArray (object_values rd) of [] \<Rightarrow> None | a # rest \<Rightarrow> Some (elems a))"
proof (cases "filter isArray (object_values rd)")
  case Nil
  then show ?thesis by (simp add: spec_rule_e_def find_filter_head)
next
  case (Cons a rest)
  then have "a \<in> set (filter isArray (object_values rd))" by simp
  then have "isArray a" by simp
  then obtain xs where "a = JArr xs" by (auto simp: isArray_iff)
  with Cons show ?thesis by (simp add: spec_rule_e_def find_filter_head)
qed

lemma spec_rule_simps:
  "spec_rule_a rd
     = (if isArray (js_get rd ''data'') then Some (elems (js_get rd ''data'')) else None)"
  "spec_rule_b rd
     = (if isArray (js_get rd ''items'') then Some (elems (js_get rd ''items'')) else None)"
  "spec_rule_c rd = (if isArray rd then Some (elems rd) else None)"
  "spec_rule_d rd
     = (if isArray (js_get rd ''transactions'') then Some (elems (js_get rd ''transactions''))
        else None)"
  by (simp_all add: spec_rule_a_def spec_rule_b_def spec_rule_c_def spec_rule_d_def
      split: jsval.splits)

lemma extract_by_rules: "fst (extractTransactions rd) = spec_transactions rd"
  by (simp add: extractTransactions_def spec_transactions_def spec_rules_def spec_rule_simps
      spec_rule_e_eq and_isArray split: list.splits)

text \<open>
  Claim C5. The transactions array the hook extracts from a payload is the one given
  by the first matching rule of the list (a) nested \<open>data\<close> array, (b) \<open>items\<close> array,
  (c) the payload itself, (d) \<open>transactions\<close> array, (e) first array among the
  payload's values; and a rule applies only when the condition of every earlier rule
  fails.
\<close>

theorem extract_priority:
  "fst (extractTransactions rd) = spec_transactions rd
   \<and> (isArray (js_get rd ''data'') \<longrightarrow>
        fst (extractTransactions rd) = elems (js_get rd ''data''))
   \<and> (\<not> isArray (js_get rd ''data'') \<and> isArray (js_get rd ''items'') \<longrightarrow>
        fst (extractTransactions rd) = elems (js_get rd ''items''))
   \<and> (\<not> isArray (js_get rd ''data'') \<and> \<not> isArray (js_get rd ''items'') \<and> isArray rd \<longrightarrow>
        fst (extractTransactions rd) = elems rd)
   \<and> (\<not> isArray (js_get rd ''data'') \<and> \<not> isArray (js_get rd ''items'') \<and> \<not> isArray rd
        \<and> isArray (js_get rd ''transactions'') \<longrightarrow>
        fst (extractTransactions rd) = elems (js_get rd ''transactions''))
   \<and> (\<not> isArray (js_get rd ''data'') \<and> \<not> isArray (js_get rd ''items'') \<and> \<not> isArray rd
        \<and> \<not> isArray (js_get rd ''transactions'') \<longrightarrow>
        fst (extractTransactions rd)
          = (case find isArray (object_values rd) of None \<Rightarrow> [] | Some a \<Rightarrow> elems a))"
  by (simp add: extract_by_rules [symmetric] extractTransactions_def isArray_truthy
      find_filter_head split: list.splits)

theorem extract_priority_witness:
  "isArray (js_get (JObj [(''transactions'', JArr [JNum 1]), (''items'', JArr [JNum 2]),
                          (''data'', JArr [JNum 3])]) ''data'')
   \<and> fst (extractTransactions (JObj [(''transactions'', JArr [JNum 1]),
        (''items'', JArr [JNum 2]), (''data'', JArr [JNum 3])])) = [JNum 3]
   \<and> spec_transactions (JObj [(''transactions'', JArr [JNum 1]),
        (''items'', JArr [JNum 2]), (''data'', JArr [JNum 3])]) = [JNum 3]"
  using extract_priority [of "JObj [(''transactions'', JArr [JNum 1]),
        (''items'', JArr [JNum 2]), (''data'', JArr [JNum 3])]"]
  by (simp add: spec_transactions_def spec_rules_def spec_rule_a_def)

subsection \<open>Switching the current category\<close>

lemma request_params_None:
  "request_params None = [(''page'', JNum 1), (''perPage'', JNum 10)]"
  by (simp add: request_params_def)

text \<open>
  Claim C2, as amended. On a mounted hook whose effect has run for the current
  category, a \<open>setCurrentCategory c\<close> step makes the hook's own effect call
  \<open>fetchTransactions(c)\<close> once when \<open>c\<close> differs from the current category: one call
  to the service, of type \<open>TRANSACTION_CATEGORIES[c]\<close> with page 1 and perPage 10.
  When \<open>c\<close> is the current category, no call is made.
\<close>

theorem setCurrentCategory_step_fetches:
  assumes "effectDeps h = Some (currentCategory h)"
  shows "calls (setCurrentCategory_step c h)
           = (if c = currentCategory h then calls h
              else calls h @ [\<lparr>call_type = TRANSACTION_CATEGORIES c,
                      call_params = [(''page'', JNum 1), (''perPage'', JNum 10)]\<rparr>])
       \<and> currentCategory (setCurrentCategory_step c h) = c
       \<and> effectDeps (setCurrentCategory_step c h) = Some c"
  using assms
  by (simp add: setCurrentCategory_step_def setCurrentCategory_def commit_def start_calls
      start_currentCategory request_params_None fetchTransactions_start_def Let_def
      getCategorySetter_rest)

theorem setCurrentCategory_step_fetches_witness:
  "effectDeps (mount Collection) = Some (currentCategory (mount Collection))
   \<and> calls (setCurrentCategory_step Payout (mount Collection))
     = [\<lparr>call_type = MONEY_IN, call_params = [(''page'', JNum 1), (''perPage'', JNum 10)]\<rparr>,
        \<lparr>call_type = MONEY_OUT, call_params = [(''page'', JNum 1), (''perPage'', JNum 10)]\<rparr>]
   \<and> calls (setCurrentCategory_step Collection (mount Collection)) = calls (mount Collection)"
proof -
  have m: "effectDeps (mount Collection) = Some (currentCategory (mount Collection))"
    by (simp add: mount_def commit_def useCategorizedTransactions_def
        fetchTransactions_start_def Let_def setCollection_def)
  have c: "calls (mount Collection)
     = [\<lparr>call_type = MONEY_IN, call_params = [(''page'', JNum 1), (''perPage'', JNum 10)]\<rparr>]"
    by (simp add: mount_def commit_def useCategorizedTransactions_def
        fetchTransactions_start_def Let_def setCollection_def request_params_None)
  have cc: "currentCategory (mount Collection) = Collection"
    by (simp add: mount_def commit_def useCategorizedTransactions_def
        fetchTransactions_start_def Let_def setCollection_def)
  show ?thesis
    using m c cc setCurrentCategory_step_fetches [OF m, of Payout]
      setCurrentCategory_step_fetches [OF m, of Collection]
    by simp
qed

text \<open>
  Claim C2 as stated fails: after mounting on \<open>collection\<close>, switching the current
  category to \<open>reversal\<close> adds a call to the transaction service.
\<close>

theorem setCurrentCategory_step_calls_service:
  "calls (setCurrentCategory_step Reversal (mount Collection)) \<noteq> calls (mount Collection)"
  by (simp add: setCurrentCategory_step_def setCurrentCategory_def mount_def commit_def
      useCategorizedTransactions_def fetchTransactions_start_def Let_def setCollection_def
      setReversal_def)

section \<open>Properties of the cascading filter hook\<close>

lemmas filter_defs = setPartnerBank_def setMerchant_def setSubMerchant_def setDateRange_def
  setTransactionType_def setSearchTerm_def setPerPage_def clearFilters_def
  fetchMerchantsByPartnerBank_start_def fetchSubMerchantsByMerchant_start_def
  fetchPartnerBanks_start_def setFilters_def setFilterData_def call_service_def

lemmas settle_defs = fetchPartnerBanks_settle_def fetchPartnerBanks_catch_def
  fetchMerchantsByPartnerBank_settle_def fetchMerchantsByPartnerBank_catch_def
  fetchSubMerchantsByMerchant_settle_def fetchSubMerchantsByMerchant_catch_def
  convertPartnerBanksToOptions_def convertMerchantsToOptions_def convertSubMerchantsToOptions_def

text \<open>
  Claim C6. For every id, \<open>setPartnerBank(id)\<close> leaves \<open>partnerBankId = id\<close>,
  \<open>merchantId = "all"\<close> and \<open>subMerchantId = "all"\<close>, both dependent option lists equal
  to the single sentinel, and has called the merchant service exactly once, for that
  id, when the id is not \<open>"all"\<close>, and not at all when it is.
\<close>

theorem setPartnerBank_effect:
  "partnerBankId (filters (setPartnerBank i h)) = i
   \<and> merchantId (filters (setPartnerBank i h)) = ''all''
   \<and> subMerchantId (filters (setPartnerBank i h)) = ''all''
   \<and> merchants (filterData (setPartnerBank i h))
       = [\<lparr>option_id = JStr ''all'', option_name = JStr ''-- All --'', option_value = JStr ''all''\<rparr>]
   \<and> subMerchants (filterData (setPartnerBank i h))
       = [\<lparr>option_id = JStr ''all'', option_name = JStr ''-- All --'', option_value = JStr ''all''\<rparr>]
   \<and> option_calls (setPartnerBank i h)
       = (if i = ''all'' then option_calls h else option_calls h @ [GetMerchantsByPartnerBank i])"
  by (simp add: filter_defs createInitialOption_def)

theorem setPartnerBank_effect_witness:
  "option_calls (setPartnerBank ''b1'' mounted_filters)
     = [GetPartnerBanks, GetMerchantsByPartnerBank ''b1'']
   \<and> option_calls (setPartnerBank ''all'' (setMerchant ''m1'' (setPartnerBank ''b1'' mounted_filters)))
     = [GetPartnerBanks, GetMerchantsByPartnerBank ''b1'', GetSubMerchantsByMerchant ''m1'']
   \<and> partnerBankId (filters (setPartnerBank ''all''
        (setMerchant ''m1'' (setPartnerBank ''b1'' mounted_filters)))) = ''all''
   \<and> merchantId (filters (setPartnerBank ''all''
        (setMerchant ''m1'' (setPartnerBank ''b1'' mounted_filters)))) = ''all''"
  using setPartnerBank_effect [of "''b1''" mounted_filters]
    setPartnerBank_effect [of "''all''" "setMerchant ''m1'' (setPartnerBank ''b1'' mounted_filters)"]
  by (simp add: mounted_filters_def useTransactionFilters_def fetchPartnerBanks_start_def
      call_service_def setFilterData_def setMerchant_def fetchSubMerchantsByMerchant_start_def
      setFilters_def)

text \<open>
  Claim C7. \<open>clearFilters()\<close> leaves every filter field at its default, both dependent
  option lists equal to the single sentinel, and the partner-bank option list as it
  was, without any call to a service.
\<close>

theorem clearFilters_effect:
  "filters (clearFilters h)
     = \<lparr>partnerBankId = ''all'', merchantId = ''all'', subMerchantId = ''all'',
        startDate = [], endDate = [], transactionType = ''all'', searchTerm = [],
        perPage = ''10''\<rparr>
   \<and> merchants (filterData (clearFilters h))
       = [\<lparr>option_id = JStr ''all'', option_name = JStr ''-- All --'', option_value = JStr ''all''\<rparr>]
   \<and> subMerchants (filterData (clearFilters h))
       = [\<lparr>option_id = JStr ''all'', option_name = JStr ''-- All --'', option_value = JStr ''all''\<rparr>]
   \<and> partnerBanks (filterData (clearFilters h)) = partnerBanks (filterData h)
   \<and> option_calls (clearFilters h) = option_calls h"
  by (simp add: filter_defs createInitialOption_def initialFilters_def)

theorem clearFilters_effect_witness:
  "perPage (filters (clearFilters (setPerPage ''50'' (setPartnerBank ''b1'' mounted_filters))))
     = ''10''
   \<and> partnerBankId (filters (clearFilters (setPerPage ''50''
        (setPartnerBank ''b1'' mounted_filters)))) = ''all''
   \<and> option_calls (clearFilters (setPerPage ''50'' (setPartnerBank ''b1'' mounted_filters)))
     = [GetPartnerBanks, GetMerchantsByPartnerBank ''b1'']"
  using clearFilters_effect [of "setPerPage ''50'' (setPartnerBank ''b1'' mounted_filters)"]
  by (simp add: filter_defs mounted_filters_def useTransactionFilters_def initialFilters_def
      createInitialOption_def)

subsection \<open>The sentinel stays first\<close>

lemma sentinel_first_single: "sentinel_first [createInitialOption]"
  by (simp add: sentinel_first_def)

lemma convertToOptions_sentinel:
  "convertToOptions f v = Some options \<Longrightarrow> sentinel_first options"
  by (auto simp: convertToOptions_def sentinel_first_def allOption_def createInitialOption_def
      split: if_splits)

lemma step_ok:
  assumes "option_lists_ok h"
  shows "option_lists_ok (filter_step h ev)"
proof (cases ev)
  case (PartnerBanksSettled out)
  then show ?thesis using assms
    by (auto simp: option_lists_ok_def settle_defs setFilterData_def
        dest: convertToOptions_sentinel split: outcome.splits option.splits)
next
  case (MerchantsSettled out)
  then show ?thesis using assms
    by (auto simp: option_lists_ok_def settle_defs setFilterData_def sentinel_first_single
        dest: convertToOptions_sentinel split: outcome.splits option.splits)
next
  case (SubMerchantsSettled out)
  then show ?thesis using assms
    by (auto simp: option_lists_ok_def settle_defs setFilterData_def sentinel_first_single
        dest: convertToOptions_sentinel split: outcome.splits option.splits)
qed (use assms in \<open>simp_all add: option_lists_ok_def filter_defs sentinel_first_single\<close>)

lemma foldl_ok:
  "option_lists_ok h \<Longrightarrow> option_lists_ok (foldl filter_step h evs)"
  by (induction evs arbitrary: h) (simp_all add: step_ok)

lemma mounted_ok: "option_lists_ok mounted_filters"
  by (simp add: mounted_filters_def useTransactionFilters_def initialFilterData_def
      fetchPartnerBanks_start_def call_service_def setFilterData_def option_lists_ok_def
      sentinel_first_single)

text \<open>
  Claim C10. After any sequence of actions and settled fetches on the mounted hook,
  each of the three option lists starts with the sentinel (so none is empty). When a
  merchant or sub-merchant fetch fails, by a thrown error or by a result that cannot
  be converted, the state it leaves has the error string together with exactly the
  single sentinel in the corresponding list.
\<close>

theorem option_lists_invariant:
  "option_lists_ok (run_filter_events evs)
   \<and> merchants (filterData (fetchMerchantsByPartnerBank_settle (Throws e) h))
       = [\<lparr>option_id = JStr ''all'', option_name = JStr ''-- All --'', option_value = JStr ''all''\<rparr>]
   \<and> error_merchants (filter_error (filterData (fetchMerchantsByPartnerBank_settle (Throws e) h)))
       = Some (message_or ''Failed to fetch merchants'' e)
   \<and> subMerchants (filterData (fetchSubMerchantsByMerchant_settle (Throws e) h))
       = [\<lparr>option_id = JStr ''all'', option_name = JStr ''-- All --'', option_value = JStr ''all''\<rparr>]
   \<and> error_subMerchants (filter_error (filterData (fetchSubMerchantsByMerchant_settle (Throws e) h)))
       = Some (message_or ''Failed to fetch sub-merchants'' e)
   \<and> (convertMerchantsToOptions v = None \<longrightarrow>
        merchants (filterData (fetchMerchantsByPartnerBank_settle (Returns v) h))
          = [\<lparr>option_id = JStr ''all'', option_name = JStr ''-- All --'',
               option_value = JStr ''all''\<rparr>])
   \<and> (convertSubMerchantsToOptions v = None \<longrightarrow>
        subMerchants (filterData (fetchSubMerchantsByMerchant_settle (Returns v) h))
          = [\<lparr>option_id = JStr ''all'', option_name = JStr ''-- All --'',
               option_value = JStr ''all''\<rparr>])"
  by (simp add: run_filter_events_def foldl_ok mounted_ok settle_defs setFilterData_def
      createInitialOption_def)

theorem option_lists_invariant_witness:
  "option_lists_ok (run_filter_events
      [SetPartnerBank ''b1'',
       MerchantsSettled (Returns (JArr [JObj [(''id'', JStr ''m1''),
                                              (''businessName'', JStr ''Shop'')]])),
       SetPartnerBank ''b2'',
       MerchantsSettled (Throws (ErrorInstance ''Network Error''))])
   \<and> merchants (filterData (fetchMerchantsByPartnerBank_settle
        (Throws (ErrorInstance ''Network Error''))
        (run_filter_events
           [SetPartnerBank ''b1'',
            MerchantsSettled (Returns (JArr [JObj [(''id'', JStr ''m1''),
                                                   (''businessName'', JStr ''Shop'')]]))])))
     = [\<lparr>option_id = JStr ''all'', option_name = JStr ''-- All --'', option_value = JStr ''all''\<rparr>]
   \<and> convertMerchantsToOptions JNull = None
   \<and> merchants (filterData (fetchMerchantsByPartnerBank_settle (Returns JNull) mounted_filters))
     = [\<lparr>option_id = JStr ''all'', option_name = JStr ''-- All --'', option_value = JStr ''all''\<rparr>]"
proof -
  have n: "convertMerchantsToOptions JNull = None"
    by (simp add: convertMerchantsToOptions_def convertToOptions_def)
  show ?thesis
    using n
      option_lists_invariant [where evs = "[SetPartnerBank ''b1'',
         MerchantsSettled (Returns (JArr [JObj [(''id'', JStr ''m1''),
                                                (''businessName'', JStr ''Shop'')]])),
         SetPartnerBank ''b2'',
         MerchantsSettled (Throws (ErrorInstance ''Network Error''))]"
        and e = "ErrorInstance ''Network Error''"
        and h = "run_filter_events [SetPartnerBank ''b1'',
            MerchantsSettled (Returns (JArr [JObj [(''id'', JStr ''m1''),
                                                   (''businessName'', JStr ''Shop'')]]))]"]
      option_lists_invariant [where v = JNull and h = mounted_filters]
    by simp
qed

section \<open>Properties of the API client\<close>

text \<open>
  Claim C8, as amended. In a browser window, a rejected response with status 401
  leaves \<open>auth_token\<close> removed from both storage tiers and the location set to
  \<open>/login\<close>, and the rejection carries the error on to the caller.
\<close>

theorem unauthorized_in_browser:
  assumes "response_status err = Some 401"
  shows "fst (onResponseError err (Some w))
           = Some (w\<lparr>localStorage := (localStorage w)(''auth_token'' := None),
                     sessionStorage := (sessionStorage w)(''auth_token'' := None),
                     location_href := ''/login''\<rparr>)
       \<and> response_status (snd (onResponseError err (Some w))) = Some 401
       \<and> error_name (snd (onResponseError err (Some w))) = error_name err"
  using assms by (simp add: onResponseError_def handleUnauthorized_def Let_def)

theorem unauthorized_in_browser_witness:
  "response_status \<lparr>response_status = Some 401,
        error_message = ''Request failed with status code 401'',
        error_name = ''AxiosError''\<rparr> = Some 401
   \<and> (case fst (onResponseError
          \<lparr>response_status = Some 401, error_message = ''Request failed with status code 401'',
            error_name = ''AxiosError''\<rparr>
          (Some \<lparr>localStorage = [''auth_token'' \<mapsto> ''t1''],
                  sessionStorage = [''auth_token'' \<mapsto> ''t2''],
                  location_href = ''/admin/dashboard''\<rparr>)) of
        None \<Rightarrow> False
      | Some w' \<Rightarrow> localStorage w' ''auth_token'' = None
                  \<and> sessionStorage w' ''auth_token'' = None
                  \<and> location_href w' = ''/login'')"
proof -
  have s: "response_status \<lparr>response_status = Some 401,
        error_message = ''Request failed with status code 401'',
        error_name = ''AxiosError''\<rparr> = Some 401"
    by simp
  show ?thesis
    using unauthorized_in_browser [OF s,
        where w = "\<lparr>localStorage = [''auth_token'' \<mapsto> ''t1''],
                    sessionStorage = [''auth_token'' \<mapsto> ''t2''],
                    location_href = ''/admin/dashboard''\<rparr>"]
    by simp
qed

text \<open>
  Claim C8 as stated fails where there is no window (\<open>typeof window\<close> is
  \<open>'undefined'\<close>): on a 401 the handler only rejects, and nothing navigates to
  \<open>/login\<close>.
\<close>

theorem unauthorized_without_window:
  "fst (onResponseError
         \<lparr>response_status = Some 401, error_message = ''Request failed with status code 401'',
           error_name = ''AxiosError''\<rparr> None) = None"
  by (simp add: onResponseError_def handleUnauthorized_def Let_def)

end
